theory Spec2Isabelle
  imports Main "HOL-Library.AList" "HOL-Library.Char_ord" "HOL-Library.List_Lexorder"
    "HOL-Library.Option_ord" "HOL-Library.Product_Lexorder"
begin

section \<open>Python values and exceptions\<close>

text \<open>
  The values that \<open>json.load\<close> and \<open>response.json()\<close> hand to the program: Python's
  \<open>None\<close>, booleans, integers, strings, lists and dictionaries with string keys.  A
  dictionary is an association list in insertion order, each key once, read with
  \<open>map_of\<close>.  JSON
  numbers are taken as integers: in every operation used below a float behaves like an
  integer (it has no \<open>get\<close>, no \<open>lstrip\<close>, no subscript, and is false only when zero).
\<close>

datatype pyval =
    PNone
  | PBool bool
  | PInt int
  | PStr string
  | PList "pyval list"
  | PDict "(string \<times> pyval) list"

text \<open>
  The exception classes the modelled operations raise; all of them derive from Python's
  \<open>Exception\<close>.  \<open>HTTPError\<close> is a subclass of \<open>RequestException\<close>.
\<close>

datatype exn =
    RequestException
  | HTTPError
  | JSONDecodeError
  | InvalidVersion
  | AttributeError
  | TypeError
  | KeyError
  | IndexError
  | ValueError
  | OSError

text \<open>Truth value of a Python object, as \<open>if x\<close> and \<open>x and y\<close> test it.\<close>

fun truthy :: "pyval \<Rightarrow> bool" where
  "truthy PNone = False"
| "truthy (PBool b) = b"
| "truthy (PInt n) = (n \<noteq> 0)"
| "truthy (PStr s) = (s \<noteq> [])"
| "truthy (PList xs) = (xs \<noteq> [])"
| "truthy (PDict kvs) = (kvs \<noteq> [])"

text \<open>\<open>d.get(key, default)\<close> on a dictionary.\<close>

definition dict_get :: "(string \<times> pyval) list \<Rightarrow> string \<Rightarrow> pyval \<Rightarrow> pyval" where
  "dict_get d key dflt = (case map_of d key of None \<Rightarrow> dflt | Some v \<Rightarrow> v)"

text \<open>\<open>x.get(key, default)\<close> on any value: only a dictionary has the method.\<close>

fun py_get :: "pyval \<Rightarrow> string \<Rightarrow> pyval \<Rightarrow> exn + pyval" where
  "py_get (PDict d) key dflt = Inr (dict_get d key dflt)"
| "py_get _ key dflt = Inl AttributeError"

text \<open>
  \<open>x[0]\<close>: the first element of a list, the first character of a string; a dictionary
  decoded from JSON has string keys only, so the key \<open>0\<close> is never present.
\<close>

fun py_index0 :: "pyval \<Rightarrow> exn + pyval" where
  "py_index0 (PList (x # xs)) = Inr x"
| "py_index0 (PList []) = Inl IndexError"
| "py_index0 (PStr (c # cs)) = Inr (PStr [c])"
| "py_index0 (PStr []) = Inl IndexError"
| "py_index0 (PDict d) = Inl KeyError"
| "py_index0 _ = Inl TypeError"

text \<open>\<open>s.lstrip('v')\<close>: every leading \<open>v\<close> is removed.\<close>

definition lstrip_v :: "string \<Rightarrow> string" where
  "lstrip_v s = dropWhile (\<lambda>c. c = CHR ''v'') s"

section \<open>The updater (core/updater.py)\<close>

text \<open>
  \<open>latest_version_info\<close> is annotated \<open>Optional[Dict[str, Any]]\<close>.  The assignment of
  line 36 stores whatever \<open>response.json()\<close> returned, but a value that is not a
  dictionary makes the next line raise \<open>AttributeError\<close>, and every handler stores
  \<open>None\<close>: outside \<open>check_for_updates\<close> the field is \<open>None\<close> or a dictionary.
\<close>

record updater =
  current_version :: string
  latest_version_info :: "(string \<times> pyval) list option"

text \<open>
  What \<open>requests.get(UPDATE_URL, timeout=10)\<close> does: it raises, or it returns a response
  with a status code and a body; the body is \<open>None\<close> when it is not JSON, so that
  \<open>response.json()\<close> raises.
\<close>

datatype fetch_result =
    GetRaises exn
  | Response nat "pyval option"

text \<open>\<open>response.raise_for_status()\<close>: an exception for the status codes 4xx and 5xx.\<close>

definition raise_for_status :: "nat \<Rightarrow> exn option" where
  "raise_for_status status = (if 400 \<le> status \<and> status < 600 then Some HTTPError else None)"

text \<open>
  Lines 39 to 42, on the dictionary just stored.  \<open>parse_version\<close> is
  \<open>packaging.version.parse\<close>, a library outside the repository: it is a parameter, \<open>None\<close>
  where the library raises \<open>InvalidVersion\<close>, and the versions it returns are compared
  with the order of their type.
\<close>

definition compare_versions ::
  "(string \<Rightarrow> 'v::ord option) \<Rightarrow> string \<Rightarrow> (string \<times> pyval) list \<Rightarrow> exn + bool" where
  "compare_versions parse_version current info =
     (case dict_get info ''tag_name'' (PStr ''0.0.0'') of
        PStr tag \<Rightarrow>
          (case parse_version (lstrip_v tag) of
             None \<Rightarrow> Inl InvalidVersion
           | Some latest \<Rightarrow>
               (case parse_version current of
                  None \<Rightarrow> Inl InvalidVersion
                | Some cur \<Rightarrow> Inr (latest > cur)))
      | _ \<Rightarrow> Inl AttributeError)"

text \<open>
  The body of the \<open>try\<close> block (lines 34 to 42): the exception raised or the value
  returned, and the updater as the block leaves it.
\<close>

definition check_body ::
  "(string \<Rightarrow> 'v::ord option) \<Rightarrow> fetch_result \<Rightarrow> updater \<Rightarrow> (exn + bool) \<times> updater" where
  "check_body parse_version fetch u =
     (case fetch of
        GetRaises e \<Rightarrow> (Inl e, u)
      | Response status body \<Rightarrow>
          (case raise_for_status status of
             Some e \<Rightarrow> (Inl e, u)
           | None \<Rightarrow>
               (case body of
                  None \<Rightarrow> (Inl JSONDecodeError, u)
                | Some (PDict info) \<Rightarrow>
                    (compare_versions parse_version (current_version u) info,
                     u\<lparr>latest_version_info := Some info\<rparr>)
                | Some _ \<Rightarrow> (Inl AttributeError, u))))"

text \<open>The three \<open>except\<close> clauses, in the order of the source.\<close>

definition isa_RequestException :: "exn \<Rightarrow> bool" where
  "isa_RequestException e = (e = RequestException \<or> e = HTTPError)"

definition isa_JSONDecodeError :: "exn \<Rightarrow> bool" where
  "isa_JSONDecodeError e = (e = JSONDecodeError)"

definition isa_Exception :: "exn \<Rightarrow> bool" where
  "isa_Exception e = True"

text \<open>
  \<open>Updater.check_for_updates\<close>: the value returned and the updater afterwards, or the
  exception that no clause caught.  The three handlers differ in the line they print.
\<close>

definition check_for_updates ::
  "(string \<Rightarrow> 'v::ord option) \<Rightarrow> fetch_result \<Rightarrow> updater \<Rightarrow> exn + (bool \<times> updater)" where
  "check_for_updates parse_version fetch u =
     (case check_body parse_version fetch u of
        (Inr b, u') \<Rightarrow> Inr (b, u')
      | (Inl e, u') \<Rightarrow>
          if isa_RequestException e then Inr (False, u'\<lparr>latest_version_info := None\<rparr>)
          else if isa_JSONDecodeError e then Inr (False, u'\<lparr>latest_version_info := None\<rparr>)
          else if isa_Exception e then Inr (False, u'\<lparr>latest_version_info := None\<rparr>)
          else Inl e)"

text \<open>\<open>Updater.get_download_url\<close> (lines 72 to 79).\<close>

definition get_download_url :: "updater \<Rightarrow> exn + pyval" where
  "get_download_url u =
     (case latest_version_info u of
        None \<Rightarrow> Inr PNone
      | Some info \<Rightarrow>
          if info = [] then Inr PNone
          else (case map_of info ''assets'' of
                  None \<Rightarrow> Inr PNone
                | Some assets \<Rightarrow>
                    if truthy assets
                    then (case py_index0 assets of
                            Inl e \<Rightarrow> Inl e
                          | Inr asset \<Rightarrow> py_get asset ''browser_download_url'' PNone)
                    else Inr PNone))"

subsection \<open>The claim's reading of the update check\<close>





subsection \<open>A version reader for evaluation\<close>

text \<open>
  An instance of the parameter \<open>parse_version\<close> for running the model on concrete
  input: the release versions \<open>N.N. ... .N\<close> of decimal numbers.  Trailing zero
  components are dropped, so that \<open>1.0\<close> and \<open>1\<close> are the same version, and the lists
  are compared lexicographically.  Any other string is refused.
\<close>

definition is_digit :: "char \<Rightarrow> bool" where
  "is_digit c = (48 \<le> (of_char c :: nat) \<and> (of_char c :: nat) \<le> 57)"

definition nat_of_digits :: "string \<Rightarrow> nat option" where
  "nat_of_digits s =
     (if s \<noteq> [] \<and> list_all is_digit s
      then Some (foldl (\<lambda>a c. 10 * a + (of_char c - 48)) 0 s)
      else None)"

fun split_on :: "char \<Rightarrow> string \<Rightarrow> string list" where
  "split_on d [] = [[]]"
| "split_on d (c # cs) =
     (if c = d then [] # split_on d cs
      else (case split_on d cs of
              w # ws \<Rightarrow> (c # w) # ws
            | [] \<Rightarrow> [[c]]))"

definition release_version :: "string \<Rightarrow> nat list option" where
  "release_version s =
     map_option (\<lambda>ns. rev (dropWhile (\<lambda>n. n = 0) (rev ns)))
       (those (map nat_of_digits (split_on (CHR ''.'') s)))"

subsection \<open>Semantic versions: the comparison the claim names\<close>

text \<open>
  Semantic Versioning 2.0.0.  A version is \<open>MAJOR.MINOR.PATCH\<close>, three decimal numbers
  without leading zeros, optionally followed by \<open>-\<close> and dot-separated pre-release
  identifiers, and by \<open>+\<close> and dot-separated build identifiers.  An identifier is a
  non-empty string of letters, digits and hyphens; a pre-release identifier of digits
  only has no leading zero.
\<close>

definition numeric_identifier :: "string \<Rightarrow> nat option" where
  "numeric_identifier s =
     (case s of
        [] \<Rightarrow> None
      | c # cs \<Rightarrow> if c = CHR ''0'' \<and> cs \<noteq> [] then None else nat_of_digits s)"

definition semver_core :: "string \<Rightarrow> (nat \<times> nat \<times> nat) option" where
  "semver_core s =
     (case map numeric_identifier (split_on (CHR ''.'') s) of
        [Some major, Some minor, Some patch] \<Rightarrow> Some (major, minor, patch)
      | _ \<Rightarrow> None)"

definition is_letter :: "char \<Rightarrow> bool" where
  "is_letter c =
     ((65 \<le> (of_char c :: nat) \<and> (of_char c :: nat) \<le> 90) \<or>
      (97 \<le> (of_char c :: nat) \<and> (of_char c :: nat) \<le> 122))"

definition semver_identifier :: "string \<Rightarrow> bool" where
  "semver_identifier s =
     (s \<noteq> [] \<and> list_all (\<lambda>c. is_digit c \<or> is_letter c \<or> c = CHR ''-'') s)"

definition prerelease_identifier :: "string \<Rightarrow> bool" where
  "prerelease_identifier s =
     (semver_identifier s \<and>
      (if list_all is_digit s then numeric_identifier s \<noteq> None else True))"

text \<open>The text before the first \<open>d\<close>, and the text after it when there is one.\<close>

definition before_first :: "char \<Rightarrow> string \<Rightarrow> string" where
  "before_first d s = takeWhile (\<lambda>c. c \<noteq> d) s"

definition after_first :: "char \<Rightarrow> string \<Rightarrow> string option" where
  "after_first d s = (case dropWhile (\<lambda>c. c \<noteq> d) s of [] \<Rightarrow> None | c # rest \<Rightarrow> Some rest)"

text \<open>
  A semantic version read from a string: the three numbers and the pre-release
  identifiers, none for a normal version.  Build identifiers are checked and dropped:
  they play no part in precedence.
\<close>

definition semver_parse :: "string \<Rightarrow> ((nat \<times> nat \<times> nat) \<times> string list) option" where
  "semver_parse s =
     (let body = before_first (CHR ''+'') s;
          build = (case after_first (CHR ''+'') s of
                     None \<Rightarrow> []
                   | Some b \<Rightarrow> split_on (CHR ''.'') b);
          pre = (case after_first (CHR ''-'') body of
                   None \<Rightarrow> []
                 | Some p \<Rightarrow> split_on (CHR ''.'') p)
      in if list_all semver_identifier build \<and> list_all prerelease_identifier pre
         then map_option (\<lambda>core. (core, pre)) (semver_core (before_first (CHR ''-'') body))
         else None)"

text \<open>
  Precedence.  Major, minor and patch are compared as numbers, in this order.  With
  these equal, a pre-release version is lower than the normal version, and two
  pre-release versions are compared identifier by identifier: numbers as numbers, other
  identifiers in ASCII order, a number below any other identifier, and with all shared
  identifiers equal the version with fewer identifiers is lower.
\<close>

definition identifier_less :: "string \<Rightarrow> string \<Rightarrow> bool" where
  "identifier_less a b =
     (case nat_of_digits a of
        Some m \<Rightarrow> (case nat_of_digits b of Some n \<Rightarrow> m < n | None \<Rightarrow> True)
      | None \<Rightarrow> (case nat_of_digits b of Some n \<Rightarrow> False | None \<Rightarrow> a < b))"

fun prerelease_less :: "string list \<Rightarrow> string list \<Rightarrow> bool" where
  "prerelease_less [] [] = False"
| "prerelease_less [] (y # ys) = True"
| "prerelease_less (x # xs) [] = False"
| "prerelease_less (x # xs) (y # ys) =
     (if identifier_less x y then True
      else if identifier_less y x then False
      else prerelease_less xs ys)"

definition semver_less ::
  "(nat \<times> nat \<times> nat) \<times> string list \<Rightarrow> (nat \<times> nat \<times> nat) \<times> string list \<Rightarrow> bool" where
  "semver_less a b =
     (case a of
        ((major, minor, patch), pre) \<Rightarrow>
          (case b of
             ((major', minor', patch'), pre') \<Rightarrow>
               if major \<noteq> major' then major < major'
               else if minor \<noteq> minor' then minor < minor'
               else if patch \<noteq> patch' then patch < patch'
               else if pre = [] then False
               else if pre' = [] then True
               else prerelease_less pre pre'))"

text \<open>\<open>s\<close> and \<open>t\<close> are semantic versions and \<open>s\<close> has the higher precedence.\<close>

definition semver_greater :: "string \<Rightarrow> string \<Rightarrow> bool" where
  "semver_greater s t =
     (case semver_parse s of
        None \<Rightarrow> False
      | Some a \<Rightarrow> (case semver_parse t of None \<Rightarrow> False | Some b \<Rightarrow> semver_less b a))"



subsection \<open>What the library does with release numbers\<close>

text \<open>
  The part of \<open>packaging.version\<close> the comparison of plain versions rests on, as a
  condition on the parameter \<open>parse_version\<close>: every string \<open>N.N. ... .N\<close> of decimal
  numbers is accepted, and two of them compare as their lists of numbers do, trailing
  zeros dropped.  This is how PEP 440 reads and orders the release segment of a version
  that has nothing but a release segment.
\<close>

definition reads_releases :: "(string \<Rightarrow> 'v::ord option) \<Rightarrow> bool" where
  "reads_releases parse_version =
     (\<forall>s t ns ms. release_version s = Some ns \<longrightarrow> release_version t = Some ms \<longrightarrow>
        (\<exists>v w. parse_version s = Some v \<and> parse_version t = Some w \<and> (v > w) = (ns > ms)))"

subsection \<open>A reader of releases with a local label, for evaluation\<close>

text \<open>
  A second instance of \<open>parse_version\<close>: a release \<open>N.N. ... .N\<close>, optionally followed by
  \<open>+\<close> and a local version label, as PEP 440 has it.  The label is split at \<open>.\<close>, \<open>-\<close> and
  \<open>_\<close> into segments of letters and digits; a segment of digits is a number, any other
  segment is its lower-case text.  A version with a label is above the same release
  without one; labels compare segment by segment, text below numbers.  The order is the
  lexicographic one of pairs, options (\<open>None\<close> lowest) and lists.  Any other string is
  refused.
\<close>

definition lower_char :: "char \<Rightarrow> char" where
  "lower_char c =
     (if 65 \<le> (of_char c :: nat) \<and> (of_char c :: nat) \<le> 90
      then char_of ((of_char c :: nat) + 32) else c)"

fun split_where :: "(char \<Rightarrow> bool) \<Rightarrow> string \<Rightarrow> string list" where
  "split_where sep [] = [[]]"
| "split_where sep (c # cs) =
     (if sep c then [] # split_where sep cs
      else (case split_where sep cs of
              w # ws \<Rightarrow> (c # w) # ws
            | [] \<Rightarrow> [[c]]))"

definition local_segment :: "string \<Rightarrow> (nat option \<times> string) option" where
  "local_segment s =
     (if s \<noteq> [] \<and> list_all (\<lambda>c. is_digit c \<or> is_letter c) s
      then (case nat_of_digits s of
              Some n \<Rightarrow> Some (Some n, [])
            | None \<Rightarrow> Some (None, map lower_char s))
      else None)"

definition release_local_version ::
  "string \<Rightarrow> (nat list \<times> (nat option \<times> string) list option) option" where
  "release_local_version s =
     (case release_version (before_first (CHR ''+'') s) of
        None \<Rightarrow> None
      | Some ns \<Rightarrow>
          (case after_first (CHR ''+'') s of
             None \<Rightarrow> Some (ns, None)
           | Some l \<Rightarrow>
               map_option (\<lambda>segs. (ns, Some segs))
                 (those (map local_segment
                    (split_where (\<lambda>c. c = CHR ''.'' \<or> c = CHR ''-'' \<or> c = CHR ''_'') l)))))"

section \<open>Players and tournaments (core/player.py, core/tournament.py)\<close>

type_synonym player_id = string

text \<open>
  Modelled from the spec: the class \<open>Player\<close> of \<open>core/player.py\<close> is not among the source
  files.  Its attributes are the ones the data model of the spec lists, under the names
  the source files read and write; \<open>pid\<close> is the attribute \<open>id\<close>.
\<close>

record player =
  pid :: player_id
  name :: string
  rating :: "int option"
  gender :: "string option"
  dob :: "string option"
  phone :: "string option"
  email :: "string option"
  club :: "string option"
  federation :: "string option"
  is_active :: bool

text \<open>
  Modelled from the spec: the constructor of \<open>Player\<close>, called with keyword arguments in
  \<open>gui/players_tab.py\<close>.  The spec has the id "assigned at creation"; here the id the
  constructor assigns is its first argument.  A new player is active.
\<close>

definition Player ::
  "player_id \<Rightarrow> string \<Rightarrow> int option \<Rightarrow> string option \<Rightarrow> string option \<Rightarrow> string option \<Rightarrow>
   string option \<Rightarrow> string option \<Rightarrow> string option \<Rightarrow> player" where
  "Player new_id n r ph em cl fed gen birth =
     \<lparr>pid = new_id, name = n, rating = r, gender = gen, dob = birth, phone = ph,
      email = em, club = cl, federation = fed, is_active = True\<rparr>"

text \<open>
  Modelled from the spec: the class \<open>Tournament\<close> of \<open>core/tournament.py\<close> is not among the
  source files.  The fields are those the source files read and write: the registry
  \<open>players\<close> (a dictionary from id to player, in insertion order), the configuration
  \<open>num_rounds\<close> and \<open>tiebreak_order\<close>, and \<open>rounds_pairings_ids\<close>, the pairings of every
  round paired so far (a bye has no second player).  The recorded results and whatever
  else the class holds are the extension of the record: the functions below are defined
  on every extension and never touch it.
\<close>

record tournament =
  t_name :: string
  players :: "(player_id \<times> player) list"
  num_rounds :: int
  tiebreak_order :: "string list"
  rounds_pairings_ids :: "(player_id \<times> player_id option) list list"

section \<open>What the user sees and answers\<close>

text \<open>
  The calls that show something or emit a signal, in the order they are made: a message
  box with its title, a line for the status bar, a line for the history log, the
  \<open>dirty\<close> signal, the request to reset the tournament, the request to refresh the
  standings, and the two refreshes of the standings tab with the tiebreak order they
  render.  The texts of the messages, the list widget and the enabling of buttons and
  menu entries are left out.
\<close>

datatype box = Warning | Information | Critical

datatype ui_event =
    MessageBox box string
  | StatusMessage
  | HistoryMessage
  | Dirty
  | ResetRequested
  | StandingsUpdateRequested
  | StandingsHeaders "string list"
  | StandingsTable "string list"

datatype button = Ok | Cancel | Yes | No

text \<open>A modal dialog: rejected, or accepted with the data it returns.\<close>

datatype 'a dialog_result = Rejected | Accepted 'a

text \<open>The dictionary \<open>PlayerDetailDialog.get_player_data()\<close> returns.\<close>

record player_data =
  d_name :: string
  d_rating :: "int option"
  d_gender :: "string option"
  d_dob :: "string option"
  d_phone :: "string option"
  d_email :: "string option"
  d_club :: "string option"
  d_federation :: "string option"

section \<open>The players tab (gui/players\_tab.py)\<close>

text \<open>\<open>any(p.name == n for p in self.tournament.players.values())\<close>\<close>

definition name_taken :: "string \<Rightarrow> (player_id \<times> player) list \<Rightarrow> bool" where
  "name_taken n ps = list_ex (\<lambda>p. name p = n) (map snd ps)"

text \<open>
  \<open>PlayersTab.add_player_detailed\<close> (lines 111 to 150).  \<open>reply\<close> answers the information
  box shown when there is no tournament, \<open>dialog\<close> is the outcome of the player dialog,
  \<open>new_id\<close> the id the constructor gives the new player.
\<close>

definition add_player_detailed ::
  "'a tournament_scheme option \<Rightarrow> button \<Rightarrow> player_data dialog_result \<Rightarrow> player_id \<Rightarrow>
   'a tournament_scheme option \<times> ui_event list" where
  "add_player_detailed tournament reply dialog new_id =
     (case tournament of
        None \<Rightarrow>
          if reply = Cancel then (None, [MessageBox Information ''New Tournament''])
          else (None, [MessageBox Information ''New Tournament'', ResetRequested])
      | Some t \<Rightarrow>
          if length (rounds_pairings_ids t) > 0
          then (Some t, [MessageBox Warning ''Tournament Active''])
          else (case dialog of
                  Rejected \<Rightarrow> (Some t, [])
                | Accepted data \<Rightarrow>
                    if d_name data = [] then (Some t, [MessageBox Warning ''Validation Error''])
                    else if name_taken (d_name data) (players t)
                    then (Some t, [MessageBox Warning ''Duplicate Player''])
                    else
                      let new_player =
                            Player new_id (d_name data) (d_rating data) (d_phone data)
                              (d_email data) (d_club data) (d_federation data)
                              (d_gender data) (d_dob data)
                      in (Some (t\<lparr>players := AList.update new_id new_player (players t)\<rparr>),
                          [StatusMessage, HistoryMessage, Dirty])))"

text \<open>
  The context menu of a player (lines 37 to 109).  A player object is shared between the
  dictionary and the handler, so an assignment to one of its attributes changes the
  entry of the dictionary.
\<close>

datatype menu_action =
    EditAction "player_data dialog_result"
  | WithdrawAction
  | RemoveAction button

text \<open>Lines 61 to 84: the edit dialog was accepted with \<open>data\<close>.\<close>

definition edit_player ::
  "'a tournament_scheme \<Rightarrow> player_id \<Rightarrow> player \<Rightarrow> player_data \<Rightarrow>
   'a tournament_scheme \<times> ui_event list" where
  "edit_player t player_id p data =
     (if d_name data = [] then (t, [MessageBox Warning ''Edit Error''])
      else if d_name data \<noteq> name p \<and> name_taken (d_name data) (players t)
      then (t, [MessageBox Warning ''Edit Error''])
      else
        let p' = p\<lparr>name := d_name data, rating := d_rating data, gender := d_gender data,
                    dob := d_dob data, phone := d_phone data, email := d_email data,
                    club := d_club data, federation := d_federation data\<rparr>
        in (t\<lparr>players := AList.update player_id p' (players t)\<rparr>, [HistoryMessage, Dirty]))"

text \<open>Lines 85 to 92: withdraw or reactivate.\<close>

definition withdraw_player ::
  "'a tournament_scheme \<Rightarrow> player_id \<Rightarrow> player \<Rightarrow> 'a tournament_scheme \<times> ui_event list" where
  "withdraw_player t player_id p =
     (t\<lparr>players := AList.update player_id (p\<lparr>is_active := \<not> is_active p\<rparr>) (players t)\<rparr>,
      [HistoryMessage, Dirty, StandingsUpdateRequested])"

text \<open>Lines 94 to 105: remove, once the question is answered.\<close>

definition remove_player ::
  "'a tournament_scheme \<Rightarrow> player \<Rightarrow> button \<Rightarrow> 'a tournament_scheme \<times> ui_event list" where
  "remove_player t p reply =
     (if reply = Yes
      then (if map_of (players t) (pid p) \<noteq> None
            then (t\<lparr>players := AList.delete (pid p) (players t)\<rparr>, [HistoryMessage, StatusMessage])
            else (t, [StatusMessage]))
      else (t, []))"

text \<open>
  \<open>PlayersTab.on_player_context_menu\<close>: \<open>item\<close> is the id held by the list item under the
  pointer, \<open>action\<close> the entry the user chose.  The entries to edit and to remove are
  disabled once the first round is paired, so they cannot be chosen then.
\<close>

definition on_player_context_menu ::
  "'a tournament_scheme option \<Rightarrow> player_id option \<Rightarrow> menu_action option \<Rightarrow>
   'a tournament_scheme option \<times> ui_event list" where
  "on_player_context_menu tournament item action =
     (case (item, tournament) of
        (Some player_id, Some t) \<Rightarrow>
          (case map_of (players t) player_id of
             None \<Rightarrow> (Some t, [])
           | Some p \<Rightarrow>
               let tournament_started = length (rounds_pairings_ids t) > 0 in
               (case action of
                  None \<Rightarrow> (Some t, [])
                | Some (EditAction dialog) \<Rightarrow>
                    if tournament_started then (Some t, [])
                    else (case dialog of
                            Rejected \<Rightarrow> (Some t, [])
                          | Accepted data \<Rightarrow>
                              (case edit_player t player_id p data of
                                 (t', ev) \<Rightarrow> (Some t', ev)))
                | Some WithdrawAction \<Rightarrow>
                    (case withdraw_player t player_id p of (t', ev) \<Rightarrow> (Some t', ev))
                | Some (RemoveAction reply) \<Rightarrow>
                    if tournament_started then (Some t, [])
                    else (case remove_player t p reply of (t', ev) \<Rightarrow> (Some t', ev))))
      | _ \<Rightarrow> (tournament, []))"

text \<open>
  The file the user picked for the import, as \<open>csv.DictReader\<close> presents it: it cannot be
  opened, or it yields rows (dictionaries from column name to text; a column the row
  lacks is absent) and then ends, or raises while reading on.
\<close>

type_synonym csv_row = "(string \<times> string) list"

datatype csv_file =
    OpenFails
  | Rows "csv_row list" "exn option"

text \<open>
  Lines 221 to 225.  \<open>py_int\<close> is Python's \<open>int\<close> on a string, \<open>None\<close> where it raises; it
  is a parameter.  The \<open>except\<close> clause turns the exception into the rating \<open>None\<close>.
\<close>

definition row_rating :: "(string \<Rightarrow> int option) \<Rightarrow> csv_row \<Rightarrow> int option" where
  "row_rating py_int row =
     (case map_of row ''Rating'' of
        None \<Rightarrow> None
      | Some r \<Rightarrow> if r \<noteq> [] then (case py_int r of Some n \<Rightarrow> Some n | None \<Rightarrow> None) else None)"

text \<open>
  The loop of lines 217 to 237 over the rows, with the registry and the counter \<open>added\<close>.
  The player built for a row gets the id \<open>ids added\<close>: \<open>ids\<close> lists the ids the
  constructor assigns during this import, in order.
\<close>

fun import_rows ::
  "(string \<Rightarrow> int option) \<Rightarrow> (nat \<Rightarrow> player_id) \<Rightarrow> csv_row list \<Rightarrow>
   (player_id \<times> player) list \<Rightarrow> nat \<Rightarrow> (player_id \<times> player) list \<times> nat" where
  "import_rows py_int ids [] ps added = (ps, added)"
| "import_rows py_int ids (row # rows) ps added =
     (case map_of row ''Name'' of
        None \<Rightarrow> import_rows py_int ids rows ps added
      | Some n \<Rightarrow>
          if n = [] then import_rows py_int ids rows ps added
          else
            let p = Player (ids added) n (row_rating py_int row) (map_of row ''Phone'')
                      (map_of row ''Email'') (map_of row ''Club'') (map_of row ''Federation'')
                      (map_of row ''Gender'') (map_of row ''Date of Birth'')
            in import_rows py_int ids rows (AList.update (ids added) p ps) (added + 1))"

text \<open>
  \<open>PlayersTab.import_players_csv\<close> (lines 200 to 246).  \<open>filename\<close> is what the file
  dialog returns, empty when it was cancelled.
\<close>

definition import_players_csv ::
  "(string \<Rightarrow> int option) \<Rightarrow> (nat \<Rightarrow> player_id) \<Rightarrow> 'a tournament_scheme option \<Rightarrow> string \<Rightarrow>
   csv_file \<Rightarrow> 'a tournament_scheme option \<times> ui_event list" where
  "import_players_csv py_int ids tournament filename file =
     (case tournament of
        None \<Rightarrow> (None, [MessageBox Warning ''No Tournament''])
      | Some t \<Rightarrow>
          if length (rounds_pairings_ids t) > 0
          then (Some t, [MessageBox Warning ''Import Error''])
          else if filename = [] then (Some t, [])
          else (case file of
                  OpenFails \<Rightarrow> (Some t, [MessageBox Critical ''Import Error''])
                | Rows rows err \<Rightarrow>
                    (case import_rows py_int ids rows (players t) 0 of
                       (ps, added) \<Rightarrow>
                         (Some (t\<lparr>players := ps\<rparr>),
                          (case err of
                             Some e \<Rightarrow> [MessageBox Critical ''Import Error'']
                           | None \<Rightarrow>
                               [HistoryMessage, Dirty,
                                MessageBox Information ''Import Successful''])))))"

text \<open>The invariant of the registry: no two players share a name.\<close>

definition unique_names :: "(player_id \<times> player) list \<Rightarrow> bool" where
  "unique_names ps = distinct (map (\<lambda>kv. name (snd kv)) ps)"

subsection \<open>An integer reader for evaluation\<close>

text \<open>
  An instance of the parameter \<open>py_int\<close> for running the model on concrete input: an
  optional sign and decimal digits.  Any other string is refused.
\<close>

definition decimal_int :: "string \<Rightarrow> int option" where
  "decimal_int s =
     (case s of
        [] \<Rightarrow> None
      | c # cs \<Rightarrow>
          if c = CHR ''-'' then map_option (\<lambda>n. - int n) (nat_of_digits cs)
          else if c = CHR ''+'' then map_option int (nat_of_digits cs)
          else map_option int (nat_of_digits s))"

section \<open>The main window (gui/mainwindow.py)\<close>

text \<open>
  The fields of \<open>SwissTournamentApp\<close> that hold the state of the application.  The tabs
  hold the same tournament object as the window.
\<close>

record 'a app =
  tournament :: "'a tournament_scheme option"
  current_round_index :: int
  last_recorded_results_data :: pyval
  current_filepath :: "string option"
  dirty :: bool

definition mark_dirty :: "'a app \<Rightarrow> bool \<Rightarrow> 'a app" where
  "mark_dirty a d = (if dirty a \<noteq> d then a\<lparr>dirty := d\<rparr> else a)"

definition mark_clean :: "'a app \<Rightarrow> 'a app" where
  "mark_clean a = mark_dirty a False"

text \<open>\<open>reset_tournament_state\<close> (lines 265 to 283).\<close>

definition reset_tournament_state :: "'a app \<Rightarrow> 'a app" where
  "reset_tournament_state a =
     mark_clean (a\<lparr>tournament := None, current_round_index := 0,
                   last_recorded_results_data := PList [], current_filepath := None\<rparr>)"

text \<open>Lines 323 to 326 of \<open>show_settings_dialog\<close>.\<close>

definition apply_num_rounds ::
  "'a tournament_scheme \<times> 'a app \<times> ui_event list \<Rightarrow> int \<Rightarrow>
   'a tournament_scheme \<times> 'a app \<times> ui_event list" where
  "apply_num_rounds s new_rounds =
     (case s of
        (t, a, ev) \<Rightarrow>
          if num_rounds t \<noteq> new_rounds \<and> \<not> length (rounds_pairings_ids t) > 0
          then (t\<lparr>num_rounds := new_rounds\<rparr>, mark_dirty a True, ev @ [HistoryMessage])
          else (t, a, ev))"

text \<open>Lines 328 to 333 of \<open>show_settings_dialog\<close>.\<close>

definition apply_tiebreaks ::
  "'a tournament_scheme \<times> 'a app \<times> ui_event list \<Rightarrow> string list \<Rightarrow>
   'a tournament_scheme \<times> 'a app \<times> ui_event list" where
  "apply_tiebreaks s new_tiebreaks =
     (case s of
        (t, a, ev) \<Rightarrow>
          if tiebreak_order t \<noteq> new_tiebreaks
          then (t\<lparr>tiebreak_order := new_tiebreaks\<rparr>, mark_dirty a True,
                ev @ [HistoryMessage, StandingsHeaders new_tiebreaks, StandingsTable new_tiebreaks])
          else (t, a, ev))"

text \<open>
  \<open>SwissTournamentApp.show_settings_dialog\<close> (lines 313 to 337): the value returned, the
  application afterwards and what was shown.  The dialog returns the number of rounds
  and the tiebreak order.
\<close>

definition show_settings_dialog ::
  "'a app \<Rightarrow> (int \<times> string list) dialog_result \<Rightarrow> bool \<times> 'a app \<times> ui_event list" where
  "show_settings_dialog a dialog =
     (case tournament a of
        None \<Rightarrow> (False, a, [])
      | Some t \<Rightarrow>
          (case dialog of
             Rejected \<Rightarrow> (False, a, [])
           | Accepted (new_rounds, new_tiebreaks) \<Rightarrow>
               (case apply_tiebreaks (apply_num_rounds (t, a, []) new_rounds) new_tiebreaks of
                  (t', a', ev) \<Rightarrow> (True, a'\<lparr>tournament := Some t'\<rparr>, ev))))"

text \<open>The file \<open>load_tournament\<close> opens: it cannot be read, it is not JSON, or it decodes.\<close>

datatype json_file =
    Unreadable
  | Malformed
  | Decoded pyval

text \<open>
  The round index read from \<open>gui_state\<close>.  The source stores the value as it is; one that
  is not a number makes \<open>results_recorded >= total_rounds\<close> (line 192) raise \<open>TypeError\<close>
  when \<open>_set_tournament_on_tabs\<close> updates the user interface, still inside the \<open>try\<close>
  block.
\<close>

fun round_index_of :: "pyval \<Rightarrow> exn + int" where
  "round_index_of (PInt n) = Inr n"
| "round_index_of (PBool b) = Inr (if b then 1 else 0)"
| "round_index_of _ = Inl TypeError"

text \<open>Lines 379 to 382, once the tournament \<open>t\<close> is decoded from \<open>data\<close>.\<close>

definition read_gui_state :: "'a app \<Rightarrow> pyval \<Rightarrow> string \<Rightarrow> exn option \<times> 'a app" where
  "read_gui_state a data filename =
     (case py_get data ''gui_state'' (PDict []) of
        Inl e \<Rightarrow> (Some e, a)
      | Inr gui_state \<Rightarrow>
          (case py_get gui_state ''current_round_index'' (PInt 0) of
             Inl e \<Rightarrow> (Some e, a)
           | Inr i \<Rightarrow>
               (case round_index_of i of
                  Inl e \<Rightarrow> (Some e, a)
                | Inr n \<Rightarrow>
                    (case py_get gui_state ''last_recorded_results_data'' (PList []) of
                       Inl e \<Rightarrow> (Some e, a\<lparr>current_round_index := n\<rparr>)
                     | Inr l \<Rightarrow>
                         (None, a\<lparr>current_round_index := n, last_recorded_results_data := l,
                                  current_filepath := Some filename\<rparr>)))))"

text \<open>
  The \<open>try\<close> block of \<open>load_tournament\<close> (lines 373 to 395): the exception raised, if any,
  the application as the block leaves it and what was shown.  \<open>from_dict\<close> is
  \<open>Tournament.from_dict\<close>, which is not among the source files: it is a parameter.
  \<open>views\<close> is the exception raised by refreshing the tabs (lines 384 to 391), if any;
  when there is none, the standings tab has been refreshed under the loaded order.
\<close>

definition load_body ::
  "(pyval \<Rightarrow> exn + 'a tournament_scheme) \<Rightarrow> 'a app \<Rightarrow> string \<Rightarrow> json_file \<Rightarrow> exn option \<Rightarrow>
   exn option \<times> 'a app \<times> ui_event list" where
  "load_body from_dict a filename file views =
     (case file of
        Unreadable \<Rightarrow> (Some OSError, a, [])
      | Malformed \<Rightarrow> (Some JSONDecodeError, a, [])
      | Decoded data \<Rightarrow>
          (case from_dict data of
             Inl e \<Rightarrow> (Some e, reset_tournament_state a, [])
           | Inr t \<Rightarrow>
               (case read_gui_state ((reset_tournament_state a)\<lparr>tournament := Some t\<rparr>)
                       data filename of
                  (Some e, a') \<Rightarrow> (Some e, a', [])
                | (None, a') \<Rightarrow>
                    (case views of
                       Some e \<Rightarrow> (Some e, a', [])
                     | None \<Rightarrow>
                         (None, mark_clean a',
                          [StandingsHeaders (tiebreak_order t), StandingsTable (tiebreak_order t),
                           HistoryMessage, StatusMessage])))))"

text \<open>
  \<open>SwissTournamentApp.load_tournament\<close> (lines 367 to 402).  \<open>proceed\<close> is what
  \<open>check_save_before_proceeding\<close> returned and \<open>a\<close> the application it left; \<open>filename\<close> is
  what the file dialog returns, empty when it was cancelled.
\<close>

definition load_tournament ::
  "(pyval \<Rightarrow> exn + 'a tournament_scheme) \<Rightarrow> 'a app \<Rightarrow> bool \<Rightarrow> string \<Rightarrow> json_file \<Rightarrow>
   exn option \<Rightarrow> 'a app \<times> ui_event list" where
  "load_tournament from_dict a proceed filename file views =
     (if \<not> proceed then (a, [])
      else if filename = [] then (a, [])
      else (case load_body from_dict a filename file views of
              (None, a', ev) \<Rightarrow> (a', ev)
            | (Some e, a', ev) \<Rightarrow>
                (reset_tournament_state a', ev @ [MessageBox Critical ''Load Error''])))"

section \<open>Sample data for evaluation\<close>

definition alice :: player where
  "alice = Player ''p1'' ''Alice'' (Some 1800) None None None None None None"

definition bob :: player where
  "bob = Player ''p2'' ''Bob'' None None None None None None None"

text \<open>A tournament still open for registration, and one whose first round is paired.\<close>

definition open_tournament :: tournament where
  "open_tournament =
     \<lparr>t_name = ''Open'', players = [(''p1'', alice), (''p2'', bob)], num_rounds = 3,
      tiebreak_order = [''buchholz'', ''wins''], rounds_pairings_ids = []\<rparr>"

definition club_tournament :: tournament where
  "club_tournament =
     \<lparr>t_name = ''Club'', players = [(''p1'', alice), (''p2'', bob)], num_rounds = 3,
      tiebreak_order = [''buchholz'', ''wins''],
      rounds_pairings_ids = [[(''p1'', Some ''p2'')]]\<rparr>"

definition empty_tournament :: tournament where
  "empty_tournament =
     \<lparr>t_name = ''New'', players = [], num_rounds = 3, tiebreak_order = [''buchholz''],
      rounds_pairings_ids = []\<rparr>"

text \<open>The ids handed out during an import: \<open>n\<close>, \<open>nx\<close>, \<open>nxx\<close>, and so on.\<close>

definition sample_ids :: "nat \<Rightarrow> player_id" where
  "sample_ids k = CHR ''n'' # replicate k (CHR ''x'')"

definition sample_app :: "tournament option \<Rightarrow> unit app" where
  "sample_app t =
     \<lparr>tournament = t, current_round_index = 1, last_recorded_results_data = PList [],
      current_filepath = Some ''club.json'', dirty = True\<rparr>"

text \<open>
  An instance of the parameter \<open>from_dict\<close>: a decoder that wants an object with a
  string under \<open>name\<close>.
\<close>

definition sample_from_dict :: "pyval \<Rightarrow> exn + tournament" where
  "sample_from_dict data =
     (case data of
        PDict d \<Rightarrow>
          (case map_of d ''name'' of
             Some (PStr n) \<Rightarrow> Inr (empty_tournament\<lparr>t_name := n\<rparr>)
           | _ \<Rightarrow> Inl KeyError)
      | _ \<Rightarrow> Inl AttributeError)"

section \<open>Properties of the updater\<close>

lemma release_version_examples:
  "release_version ''1.3.0'' = Some [1, 3]"
  "release_version ''1.2.0'' = Some [1, 2]"
  "release_version ''1.0.0'' = Some [1]"
  "release_version ''0.0.0'' = Some []"
  "release_version ''1.2b'' = None"
  by (simp_all add: release_version_def nat_of_digits_def is_digit_def)


lemma nat_of_digits_digits: "nat_of_digits s = Some n \<Longrightarrow> list_all is_digit s"
  by (simp add: nat_of_digits_def split: if_splits)


lemma split_on_chars:
  "c \<in> set s \<Longrightarrow> c = d \<or> (\<exists>w \<in> set (split_on d s). c \<in> set w)"
proof (induction s)
  case Nil
  then show ?case by simp
next
  case (Cons a s)
  then show ?case
    by (cases "split_on d s") (auto split: if_splits)
qed

lemma absent_separator:
  "d \<notin> set s \<Longrightarrow> before_first d s = s" "d \<notin> set s \<Longrightarrow> after_first d s = None"
  by (induction s) (auto simp: before_first_def after_first_def)








lemma those_map_Some:
  "those (map f xs) = Some ys \<Longrightarrow> x \<in> set xs \<Longrightarrow> f x \<noteq> None"
  by (induction xs arbitrary: ys) (auto split: option.splits)

lemma release_version_chars:
  assumes "release_version s = Some ns" and "c \<in> set s"
  shows "c = CHR ''.'' \<or> is_digit c"
proof -
  from assms(1) obtain ms where
    parts: "those (map nat_of_digits (split_on (CHR ''.'') s)) = Some ms"
    by (auto simp: release_version_def)
  have "list_all is_digit w" if "w \<in> set (split_on (CHR ''.'') s)" for w
    using those_map_Some [OF parts that] by (auto dest: nat_of_digits_digits)
  with split_on_chars [OF assms(2), of "CHR ''.''"] show ?thesis
    by (auto simp: list_all_iff)
qed

lemma release_local_version_plain:
  assumes "release_version s = Some ns"
  shows "release_local_version s = Some (ns, None)"
proof -
  have "CHR ''+'' \<notin> set s"
    using release_version_chars [OF assms, of "CHR ''+''"] by (auto simp: is_digit_def)
  with assms show ?thesis by (simp add: release_local_version_def absent_separator)
qed

lemma reads_releases_release_local_version: "reads_releases release_local_version"
  by (auto simp: reads_releases_def release_local_version_plain)


text \<open>The chain of precedence that the Semantic Versioning document gives as its example.\<close>

lemma semver_precedence_example:
  "semver_greater ''1.0.0-alpha.1'' ''1.0.0-alpha''"
  "semver_greater ''1.0.0-alpha.beta'' ''1.0.0-alpha.1''"
  "semver_greater ''1.0.0-beta'' ''1.0.0-alpha.beta''"
  "semver_greater ''1.0.0-beta.2'' ''1.0.0-beta''"
  "semver_greater ''1.0.0-beta.11'' ''1.0.0-beta.2''"
  "semver_greater ''1.0.0-rc.1'' ''1.0.0-beta.11''"
  "semver_greater ''1.0.0'' ''1.0.0-rc.1''"
  "\<not> semver_greater ''1.0.0-rc.1'' ''1.0.0''"
  by (simp_all add: semver_greater_def semver_parse_def before_first_def after_first_def
      semver_core_def numeric_identifier_def nat_of_digits_def is_digit_def is_letter_def
      prerelease_identifier_def semver_identifier_def semver_less_def identifier_less_def)








lemma py_get_raises_AttributeError_only:
  "py_get x k d \<noteq> Inl KeyError" "py_get x k d \<noteq> Inl IndexError"
  by (cases x; simp)+

lemma py_index0_IndexError: "py_index0 x = Inl IndexError \<Longrightarrow> \<not> truthy x"
  by (cases x rule: py_index0.cases) auto

lemma py_index0_KeyError: "py_index0 x = Inl KeyError \<longleftrightarrow> (\<exists>d. x = PDict d)"
  by (cases x rule: py_index0.cases) auto

text \<open>
  C10, as the code has it.  \<open>get_download_url\<close> never raises an index error.  It returns
  \<open>None\<close> when \<open>latest_version_info\<close> is \<open>None\<close>, has no \<open>assets\<close>, or has an empty list
  of assets; when the list of assets starts with an object it returns that object's
  \<open>browser_download_url\<close>, \<open>None\<close> if it has none.  It raises a key error exactly when
  \<open>assets\<close> is a non-empty object instead of a list.
\<close>

theorem get_download_url_cases:
  "get_download_url u \<noteq> Inl IndexError \<and>
   (latest_version_info u = None \<longrightarrow> get_download_url u = Inr PNone) \<and>
   (\<forall>info. latest_version_info u = Some info \<longrightarrow>
      (map_of info ''assets'' = None \<longrightarrow> get_download_url u = Inr PNone) \<and>
      (map_of info ''assets'' = Some (PList []) \<longrightarrow> get_download_url u = Inr PNone) \<and>
      (\<forall>asset rest. map_of info ''assets'' = Some (PList (PDict asset # rest)) \<longrightarrow>
         get_download_url u = Inr (dict_get asset ''browser_download_url'' PNone)) \<and>
      (get_download_url u = Inl KeyError \<longleftrightarrow>
         (\<exists>d. map_of info ''assets'' = Some (PDict d) \<and> d \<noteq> [])))"
proof -
  have a: "get_download_url u \<noteq> Inl IndexError"
    by (auto simp: get_download_url_def py_get_raises_AttributeError_only
        split: option.splits sum.splits dest: py_index0_IndexError)
  have b: "latest_version_info u = None \<longrightarrow> get_download_url u = Inr PNone"
    by (simp add: get_download_url_def)
  have c: "get_download_url u = Inr PNone"
    if "latest_version_info u = Some info" "map_of info ''assets'' = None" for info
    using that by (simp add: get_download_url_def)
  have d: "get_download_url u = Inr PNone"
    if "latest_version_info u = Some info" "map_of info ''assets'' = Some (PList [])" for info
    using that by (simp add: get_download_url_def)
  have e: "get_download_url u = Inr (dict_get asset ''browser_download_url'' PNone)"
    if "latest_version_info u = Some info"
      "map_of info ''assets'' = Some (PList (PDict asset # rest))" for info asset rest
    using that by (auto simp: get_download_url_def)
  have f: "get_download_url u = Inl KeyError \<longleftrightarrow>
         (\<exists>d. map_of info ''assets'' = Some (PDict d) \<and> d \<noteq> [])"
    if "latest_version_info u = Some info" for info
    using that
    by (auto simp: get_download_url_def py_get_raises_AttributeError_only py_index0_KeyError
        split: option.splits sum.splits)
  show ?thesis using a b c d e f by blast
qed

theorem get_download_url_cases_witness:
  "get_download_url
     \<lparr>current_version = ''1.0.0'',
      latest_version_info =
        Some [(''tag_name'', PStr ''v1.1.0''),
              (''assets'', PList [PDict [(''name'', PStr ''setup.exe''),
                                        (''browser_download_url'', PStr ''https://example.org/setup.exe'')],
                                 PDict [(''name'', PStr ''setup.zip'')]])]\<rparr> =
   Inr (PStr ''https://example.org/setup.exe'')"
  using get_download_url_cases [of
      "\<lparr>current_version = ''1.0.0'',
        latest_version_info =
          Some [(''tag_name'', PStr ''v1.1.0''),
                (''assets'', PList [PDict [(''name'', PStr ''setup.exe''),
                                          (''browser_download_url'', PStr ''https://example.org/setup.exe'')],
                                   PDict [(''name'', PStr ''setup.zip'')]])]\<rparr>"]
  by (simp add: dict_get_def)

text \<open>
  C10 as stated fails when \<open>assets\<close> is a non-empty object: it passes the three tests of
  line 77, and \<open>[0]\<close> on a dictionary raises a key error.  The update check itself stores
  such a release.
\<close>

theorem get_download_url_key_error:
  "check_for_updates release_version
     (Response 200 (Some (PDict [(''tag_name'', PStr ''v1.3.0''),
                                 (''assets'', PDict [(''count'', PInt 1)])])))
     \<lparr>current_version = ''1.2.0'', latest_version_info = None\<rparr> =
   Inr (True,
        \<lparr>current_version = ''1.2.0'',
         latest_version_info = Some [(''tag_name'', PStr ''v1.3.0''),
                                     (''assets'', PDict [(''count'', PInt 1)])]\<rparr>) \<and>
   get_download_url
     \<lparr>current_version = ''1.2.0'',
      latest_version_info = Some [(''tag_name'', PStr ''v1.3.0''),
                                  (''assets'', PDict [(''count'', PInt 1)])]\<rparr> =
   Inl KeyError"
  by (simp add: check_for_updates_def check_body_def raise_for_status_def
      compare_versions_def dict_get_def lstrip_v_def release_version_examples
      get_download_url_def)

section \<open>Properties of the players tab\<close>

lemma map_of_Some_key: "map_of xs k = Some v \<Longrightarrow> k \<in> fst ` set xs"
  by (metis domI dom_map_of_conv_image_fst)

lemma set_update_subset: "set (AList.update k v ps) \<subseteq> insert (k, v) (set ps)"
  by (induction ps) auto

text \<open>Storing a player whose name nobody has keeps the names distinct, new key or old.\<close>

lemma update_keeps_unique_names:
  "unique_names ps \<Longrightarrow> \<not> name_taken (name v) ps \<Longrightarrow> unique_names (AList.update k v ps)"
proof (induction ps)
  case Nil
  then show ?case by (simp add: unique_names_def)
next
  case (Cons kv ps)
  obtain k' v' where kv: "kv = (k', v')" by (cases kv)
  have ih: "unique_names (AList.update k v ps)"
    using Cons by (auto simp: unique_names_def name_taken_def)
  have fresh: "name v' \<notin> (\<lambda>kv. name (snd kv)) ` set (AList.update k v ps)"
    using Cons.prems set_update_subset [of k v ps]
    by (auto simp: kv unique_names_def name_taken_def list_ex_iff)
  show ?case
    using Cons.prems ih fresh
    by (auto simp: kv unique_names_def name_taken_def list_ex_iff)
qed

lemma sample_players_names:
  "name alice = ''Alice''" "name bob = ''Bob''" "pid alice = ''p1''" "pid bob = ''p2''"
  by (simp_all add: alice_def bob_def Player_def)

lemma inj_sample_ids: "inj sample_ids"
  by (auto simp: inj_def sample_ids_def)

text \<open>
  C2.  The import does not look at the names already registered: importing a row named
  \<open>Alice\<close> into a registry that has an \<open>Alice\<close> succeeds and leaves two players of that
  name.
\<close>

theorem import_players_csv_admits_duplicate_name:
  "unique_names (players open_tournament) \<and>
   import_players_csv decimal_int sample_ids (Some open_tournament) ''players.csv''
     (Rows [[(''Name'', ''Alice''), (''Rating'', ''1700'')]] None) =
   (Some (open_tournament
      \<lparr>players := [(''p1'', alice), (''p2'', bob),
                   (''n'', Player ''n'' ''Alice'' (Some 1700) None None None None None None)]\<rparr>),
    [HistoryMessage, Dirty, MessageBox Information ''Import Successful'']) \<and>
   \<not> unique_names [(''p1'', alice), (''p2'', bob),
                    (''n'', Player ''n'' ''Alice'' (Some 1700) None None None None None None)]"
  by (simp add: import_players_csv_def open_tournament_def sample_ids_def row_rating_def
      decimal_int_def nat_of_digits_def is_digit_def unique_names_def sample_players_names
      Player_def)

text \<open>
  C3.  In every tournament, a submitted player record whose name is empty or is the name
  of a registered player is answered with a warning box, and the tournament is exactly
  as before.
\<close>

theorem add_player_detailed_rejects_bad_name:
  assumes "d_name data = [] \<or> name_taken (d_name data) (players t)"
  shows "\<exists>title. add_player_detailed (Some t) reply (Accepted data) new_id =
           (Some t, [MessageBox Warning title])"
  using assms by (auto simp: add_player_detailed_def)

theorem add_player_detailed_rejects_bad_name_witness:
  "name_taken ''Alice'' (players open_tournament) \<and>
   add_player_detailed (Some open_tournament) Ok
     (Accepted \<lparr>d_name = ''Alice'', d_rating = Some 1500, d_gender = None, d_dob = None,
                d_phone = None, d_email = None, d_club = None, d_federation = None\<rparr>) ''p3'' =
   (Some open_tournament, [MessageBox Warning ''Duplicate Player''])"
proof -
  have taken: "name_taken ''Alice'' (players open_tournament)"
    by (simp add: name_taken_def open_tournament_def sample_players_names)
  show ?thesis
    using taken add_player_detailed_rejects_bad_name [of
        "\<lparr>d_name = ''Alice'', d_rating = Some 1500, d_gender = None, d_dob = None,
          d_phone = None, d_email = None, d_club = None, d_federation = None\<rparr>"
        open_tournament Ok "''p3''"]
    by (auto simp: add_player_detailed_def open_tournament_def)
qed

lemma import_rows_keeps_earlier:
  "inj ids \<Longrightarrow> j < added \<Longrightarrow>
   map_of (fst (import_rows py_int ids rows ps added)) (ids j) = map_of ps (ids j)"
proof (induction rows arbitrary: ps added)
  case Nil
  then show ?case by simp
next
  case (Cons row rows)
  then have "ids added \<noteq> ids j" by (auto dest: injD)
  with Cons show ?case
    by (auto simp: update_conv' Let_def split: option.splits)
qed

lemma import_rows_admits:
  "inj ids \<Longrightarrow> row \<in> set rows \<Longrightarrow> map_of row ''Name'' = Some n \<Longrightarrow> n \<noteq> [] \<Longrightarrow>
   row_rating py_int row = None \<Longrightarrow>
   \<exists>k p. added \<le> k \<and> map_of (fst (import_rows py_int ids rows ps added)) (ids k) = Some p \<and>
         name p = n \<and> rating p = None"
proof (induction rows arbitrary: ps added)
  case Nil
  then show ?case by simp
next
  case (Cons r rows)
  show ?case
  proof (cases "r = row")
    case True
    have "map_of (fst (import_rows py_int ids rows (AList.update (ids added) q ps)
            (added + 1))) (ids added) = Some q" for q
      using import_rows_keeps_earlier [OF Cons.prems(1), of added "added + 1" py_int rows]
      by (simp add: update_conv')
    with True Cons.prems show ?thesis
      by (auto simp: Let_def Player_def intro!: exI [of _ added])
  next
    case False
    with Cons.prems have in_rows: "row \<in> set rows" by simp
    note ih = Cons.IH [OF Cons.prems(1) in_rows Cons.prems(3,4,5)]
    show ?thesis
    proof (cases "map_of r ''Name''")
      case None
      with ih [of added ps] show ?thesis by simp
    next
      case (Some m)
      show ?thesis
      proof (cases "m = []")
        case True
        with Some ih [of added ps] show ?thesis by simp
      next
        case False
        obtain k p where "added + 1 \<le> k"
          "map_of (fst (import_rows py_int ids rows (AList.update (ids added)
              (Player (ids added) m (row_rating py_int r) (map_of r ''Phone'')
                 (map_of r ''Email'') (map_of r ''Club'') (map_of r ''Federation'')
                 (map_of r ''Gender'') (map_of r ''Date of Birth'')) ps) (added + 1)))
             (ids k) = Some p"
          "name p = n" "rating p = None"
          using ih by blast
        with Some False show ?thesis
          by (auto simp: Let_def intro!: exI [of _ k])
      qed
    qed
  qed
qed

text \<open>
  C4, as the code has it.  While no round is paired, an import whose file reads to the
  end admits every row with a name, also one whose rating does not read as an integer:
  the player is registered with the rating \<open>None\<close>, and the only message is the one that
  reports success.  The ids the constructor hands out are pairwise different.
\<close>

theorem import_players_csv_admits_invalid_rating:
  assumes "rounds_pairings_ids t = []" and "filename \<noteq> []" and "inj ids"
    and "row \<in> set rows" and "map_of row ''Name'' = Some n" and "n \<noteq> []"
    and "map_of row ''Rating'' = Some r" and "py_int r = None"
  shows "\<exists>ps. import_players_csv py_int ids (Some t) filename (Rows rows None) =
            (Some (t\<lparr>players := ps\<rparr>),
             [HistoryMessage, Dirty, MessageBox Information ''Import Successful'']) \<and>
          (\<exists>k p. map_of ps (ids k) = Some p \<and> name p = n \<and> rating p = None)"
proof -
  obtain ps added where run: "import_rows py_int ids rows (players t) 0 = (ps, added)"
    by (cases "import_rows py_int ids rows (players t) 0")
  have "row_rating py_int row = None"
    using assms(7,8) by (simp add: row_rating_def)
  from import_rows_admits [OF assms(3,4,5,6) this, of 0 "players t"] run
  obtain k p where admitted: "map_of ps (ids k) = Some p" "name p = n" "rating p = None"
    by auto
  have "import_players_csv py_int ids (Some t) filename (Rows rows None) =
          (Some (t\<lparr>players := ps\<rparr>),
           [HistoryMessage, Dirty, MessageBox Information ''Import Successful''])"
    using assms(1,2) run by (simp add: import_players_csv_def)
  with admitted show ?thesis by blast
qed

theorem import_players_csv_admits_invalid_rating_witness:
  "rounds_pairings_ids open_tournament = [] \<and> inj sample_ids \<and> decimal_int ''12a'' = None \<and>
   import_players_csv decimal_int sample_ids (Some open_tournament) ''players.csv''
     (Rows [[(''Name'', ''Carol''), (''Rating'', ''12a''), (''Club'', ''Rooks'')]] None) =
   (Some (open_tournament
      \<lparr>players := [(''p1'', alice), (''p2'', bob),
                   (''n'', Player ''n'' ''Carol'' None None None (Some ''Rooks'') None None None)]\<rparr>),
    [HistoryMessage, Dirty, MessageBox Information ''Import Successful''])"
proof -
  have unpaired: "rounds_pairings_ids open_tournament = []"
    by (simp add: open_tournament_def)
  have invalid: "decimal_int ''12a'' = None"
    by (simp add: decimal_int_def nat_of_digits_def is_digit_def)
  have row: "[(''Name'', ''Carol''), (''Rating'', ''12a''), (''Club'', ''Rooks'')]
      \<in> set [[(''Name'', ''Carol''), (''Rating'', ''12a''), (''Club'', ''Rooks'')]]"
    by simp
  have name_of_row:
    "map_of [(''Name'', ''Carol''), (''Rating'', ''12a''), (''Club'', ''Rooks'')] ''Name'' =
       Some ''Carol''"
    by simp
  have rating_of_row:
    "map_of [(''Name'', ''Carol''), (''Rating'', ''12a''), (''Club'', ''Rooks'')] ''Rating'' =
       Some ''12a''"
    by simp
  have "\<exists>ps. import_players_csv decimal_int sample_ids (Some open_tournament) ''players.csv''
          (Rows [[(''Name'', ''Carol''), (''Rating'', ''12a''), (''Club'', ''Rooks'')]] None) =
        (Some (open_tournament\<lparr>players := ps\<rparr>),
         [HistoryMessage, Dirty, MessageBox Information ''Import Successful'']) \<and>
        (\<exists>k p. map_of ps (sample_ids k) = Some p \<and> name p = ''Carol'' \<and> rating p = None)"
    using import_players_csv_admits_invalid_rating
      [where t = open_tournament and filename = "''players.csv''" and ids = sample_ids
         and py_int = decimal_int and r = "''12a''" and n = "''Carol''",
       OF unpaired _ inj_sample_ids row name_of_row _ rating_of_row invalid]
    by simp
  then show ?thesis
    using unpaired invalid inj_sample_ids
    by (simp add: import_players_csv_def open_tournament_def sample_ids_def row_rating_def)
qed

text \<open>
  C4 as stated fails: a row with the rating \<open>abc\<close> is imported, the registry grows by a
  player with no rating, and no error is shown.
\<close>

theorem import_players_csv_invalid_rating_is_silent:
  "decimal_int ''abc'' = None \<and>
   import_players_csv decimal_int sample_ids (Some empty_tournament) ''players.csv''
     (Rows [[(''Name'', ''Bob''), (''Rating'', ''abc'')]] None) =
   (Some (empty_tournament
      \<lparr>players := [(''n'', Player ''n'' ''Bob'' None None None None None None None)]\<rparr>),
    [HistoryMessage, Dirty, MessageBox Information ''Import Successful''])"
  by (simp add: import_players_csv_def empty_tournament_def sample_ids_def row_rating_def
      decimal_int_def nat_of_digits_def is_digit_def)

text \<open>
  C8.  Withdrawing or reactivating a registered player returns the tournament with that
  player's \<open>is_active\<close> negated and nothing else changed: the player's other attributes,
  every other player, the keys of the registry and their order, and every other field of
  the tournament, the pairings and the results among them, are as before.
\<close>

theorem withdraw_toggles_only_is_active:
  assumes "map_of (players t) player_id = Some p"
  shows "\<exists>t' ev. on_player_context_menu (Some t) (Some player_id) (Some WithdrawAction) =
            (Some t', ev) \<and>
          map_of (players t') player_id = Some (p\<lparr>is_active := \<not> is_active p\<rparr>) \<and>
          (\<forall>q. q \<noteq> player_id \<longrightarrow> map_of (players t') q = map_of (players t) q) \<and>
          map fst (players t') = map fst (players t) \<and>
          t' = t\<lparr>players := players t'\<rparr>"
  using assms map_of_Some_key [OF assms]
  by (simp add: on_player_context_menu_def withdraw_player_def update_conv' update_keys)

theorem withdraw_toggles_only_is_active_witness:
  "map_of (players club_tournament) ''p2'' = Some bob \<and>
   on_player_context_menu (Some club_tournament) (Some ''p2'') (Some WithdrawAction) =
   (Some (club_tournament
      \<lparr>players := [(''p1'', alice), (''p2'', bob\<lparr>is_active := False\<rparr>)]\<rparr>),
    [HistoryMessage, Dirty, StandingsUpdateRequested])"
proof -
  have registered: "map_of (players club_tournament) ''p2'' = Some bob"
    by (simp add: club_tournament_def)
  show ?thesis
    using registered withdraw_toggles_only_is_active [OF registered]
    by (simp add: on_player_context_menu_def withdraw_player_def club_tournament_def
        bob_def Player_def)
qed

section \<open>Properties of the main window\<close>

lemma reset_tournament_state_fields:
  "tournament (reset_tournament_state a) = None"
  "current_round_index (reset_tournament_state a) = 0"
  "current_filepath (reset_tournament_state a) = None"
  "last_recorded_results_data (reset_tournament_state a) = PList []"
  "dirty (reset_tournament_state a) = False"
  by (auto simp: reset_tournament_state_def mark_clean_def mark_dirty_def)

text \<open>
  C5.  Once a round is paired, the settings dialog leaves \<open>num_rounds\<close> as it is, whether
  the dialog is accepted or not and whatever number it returns.
\<close>

theorem show_settings_dialog_keeps_num_rounds:
  assumes "tournament a = Some t" and "rounds_pairings_ids t \<noteq> []"
  shows "map_option num_rounds (tournament (fst (snd (show_settings_dialog a dialog)))) =
           Some (num_rounds t)"
  using assms
  by (auto simp: show_settings_dialog_def apply_num_rounds_def apply_tiebreaks_def
      mark_dirty_def split: dialog_result.splits prod.splits)

theorem show_settings_dialog_keeps_num_rounds_witness:
  "rounds_pairings_ids club_tournament \<noteq> [] \<and>
   map_option num_rounds (tournament (fst (snd
     (show_settings_dialog (sample_app (Some club_tournament)) (Accepted (7, [''wins'']))))))
   = Some 3"
proof -
  have app: "tournament (sample_app (Some club_tournament)) = Some club_tournament"
    by (simp add: sample_app_def)
  have paired: "rounds_pairings_ids club_tournament \<noteq> []"
    by (simp add: club_tournament_def)
  have "num_rounds club_tournament = 3"
    by (simp add: club_tournament_def)
  then show ?thesis
    using paired show_settings_dialog_keeps_num_rounds [OF app paired, of "Accepted (7, [''wins''])"]
    by simp
qed

text \<open>
  C6.  Before and after the first pairing, accepting the settings dialog with a tiebreak
  order different from the current one stores the new order and refreshes the standings
  table under it; of the tournament only \<open>tiebreak_order\<close> and, before the first pairing,
  \<open>num_rounds\<close> can differ afterwards: the pairings and every other field are as before.
\<close>

theorem show_settings_dialog_tiebreak_order:
  assumes "tournament a = Some t" and "new_tiebreaks \<noteq> tiebreak_order t"
  shows "\<exists>a' ev t'. show_settings_dialog a (Accepted (new_rounds, new_tiebreaks)) = (True, a', ev) \<and>
          tournament a' = Some t' \<and>
          tiebreak_order t' = new_tiebreaks \<and>
          StandingsTable new_tiebreaks \<in> set ev \<and>
          t' = t\<lparr>num_rounds := num_rounds t', tiebreak_order := new_tiebreaks\<rparr> \<and>
          rounds_pairings_ids t' = rounds_pairings_ids t \<and>
          players t' = players t \<and>
          tournament.more t' = tournament.more t"
  using assms
  by (auto simp: show_settings_dialog_def apply_num_rounds_def apply_tiebreaks_def
      mark_dirty_def split: dialog_result.splits prod.splits)

theorem show_settings_dialog_tiebreak_order_witness:
  "[''wins'', ''buchholz''] \<noteq> tiebreak_order club_tournament \<and>
   show_settings_dialog (sample_app (Some club_tournament))
     (Accepted (3, [''wins'', ''buchholz''])) =
   (True,
    sample_app (Some (club_tournament\<lparr>tiebreak_order := [''wins'', ''buchholz'']\<rparr>)),
    [HistoryMessage, StandingsHeaders [''wins'', ''buchholz''],
     StandingsTable [''wins'', ''buchholz'']])"
proof -
  have app: "tournament (sample_app (Some club_tournament)) = Some club_tournament"
    by (simp add: sample_app_def)
  have differs: "[''wins'', ''buchholz''] \<noteq> tiebreak_order club_tournament"
    by (simp add: club_tournament_def)
  show ?thesis
    using differs show_settings_dialog_tiebreak_order [OF app differs, of 3]
    by (simp add: show_settings_dialog_def apply_num_rounds_def apply_tiebreaks_def
        mark_dirty_def sample_app_def club_tournament_def)
qed

text \<open>
  C7.  When a load is attempted and fails, because the file cannot be read, is not
  JSON, is refused by \<open>Tournament.from_dict\<close>, or for any other exception of the \<open>try\<close>
  block, an error box is shown last and the application has no tournament, the round
  index 0 and no file path.
\<close>

theorem load_tournament_failure_resets:
  assumes "proceed" and "filename \<noteq> []"
    and "file = Unreadable \<or> file = Malformed \<or>
         (\<exists>d e. file = Decoded d \<and> from_dict d = Inl e) \<or>
         fst (load_body from_dict a filename file views) \<noteq> None"
  shows "\<exists>a' ev. load_tournament from_dict a proceed filename file views =
            (a', ev @ [MessageBox Critical ''Load Error'']) \<and>
          tournament a' = None \<and> current_round_index a' = 0 \<and> current_filepath a' = None"
  using assms
  by (auto simp: load_tournament_def load_body_def reset_tournament_state_fields
      split: json_file.splits sum.splits prod.splits option.splits)

theorem load_tournament_failure_resets_witness:
  "sample_from_dict (PDict [(''players'', PDict [])]) = Inl KeyError \<and>
   load_tournament sample_from_dict (sample_app (Some club_tournament)) True ''saved.json''
     (Decoded (PDict [(''players'', PDict [])])) None =
   (\<lparr>tournament = None, current_round_index = 0, last_recorded_results_data = PList [],
     current_filepath = None, dirty = False\<rparr>,
    [MessageBox Critical ''Load Error''])"
proof -
  have refused: "sample_from_dict (PDict [(''players'', PDict [])]) = Inl KeyError"
    by (simp add: sample_from_dict_def)
  have cause: "Decoded (PDict [(''players'', PDict [])]) = Unreadable \<or>
      Decoded (PDict [(''players'', PDict [])]) = Malformed \<or>
      (\<exists>d e. Decoded (PDict [(''players'', PDict [])]) = Decoded d \<and> sample_from_dict d = Inl e) \<or>
      fst (load_body sample_from_dict (sample_app (Some club_tournament)) ''saved.json''
             (Decoded (PDict [(''players'', PDict [])])) None) \<noteq> None"
    using refused by simp
  show ?thesis
    using refused load_tournament_failure_resets [OF _ _ cause, of True]
    by (simp add: load_tournament_def load_body_def reset_tournament_state_def mark_clean_def
        mark_dirty_def sample_app_def)
qed

section \<open>Further properties\<close>

text \<open>
  X1.  \<open>add_player_detailed\<close> keeps the invariant of the registry: if no two players share
  a name before, none do afterwards, whatever the dialog returns and whatever id the new
  player gets.
\<close>

theorem add_player_detailed_keeps_unique_names:
  assumes "unique_names (players t)"
  shows "\<exists>t' ev. add_player_detailed (Some t) reply dialog new_id = (Some t', ev) \<and>
          unique_names (players t')"
  using assms
  by (auto simp: add_player_detailed_def Let_def Player_def
      intro!: update_keeps_unique_names split: dialog_result.splits)

theorem add_player_detailed_keeps_unique_names_witness:
  "unique_names (players open_tournament) \<and>
   add_player_detailed (Some open_tournament) Ok
     (Accepted \<lparr>d_name = ''Carol'', d_rating = Some 1500, d_gender = None, d_dob = None,
                d_phone = None, d_email = None, d_club = None, d_federation = None\<rparr>) ''p3'' =
   (Some (open_tournament
      \<lparr>players := [(''p1'', alice), (''p2'', bob),
                   (''p3'', Player ''p3'' ''Carol'' (Some 1500) None None None None None None)]\<rparr>),
    [StatusMessage, HistoryMessage, Dirty])"
proof -
  have unique: "unique_names (players open_tournament)"
    by (simp add: unique_names_def open_tournament_def sample_players_names)
  show ?thesis
    using unique add_player_detailed_keeps_unique_names [OF unique, of Ok
        "Accepted \<lparr>d_name = ''Carol'', d_rating = Some 1500, d_gender = None, d_dob = None,
                   d_phone = None, d_email = None, d_club = None, d_federation = None\<rparr>" "''p3''"]
    by (simp add: add_player_detailed_def open_tournament_def name_taken_def
        sample_players_names)
qed

text \<open>
  X2.  While no round is paired, accepting the settings dialog stores the number of
  rounds it returns.
\<close>

theorem show_settings_dialog_sets_num_rounds:
  assumes "tournament a = Some t" and "rounds_pairings_ids t = []"
  shows "map_option num_rounds (tournament (fst (snd
           (show_settings_dialog a (Accepted (new_rounds, new_tiebreaks)))))) =
         Some new_rounds"
  using assms
  by (auto simp: show_settings_dialog_def apply_num_rounds_def apply_tiebreaks_def
      mark_dirty_def split: prod.splits)

theorem show_settings_dialog_sets_num_rounds_witness:
  "rounds_pairings_ids open_tournament = [] \<and>
   map_option num_rounds (tournament (fst (snd
     (show_settings_dialog (sample_app (Some open_tournament))
        (Accepted (5, [''buchholz'', ''wins'']))))))
   = Some 5"
proof -
  have app: "tournament (sample_app (Some open_tournament)) = Some open_tournament"
    by (simp add: sample_app_def)
  have unpaired: "rounds_pairings_ids open_tournament = []"
    by (simp add: open_tournament_def)
  show ?thesis
    using unpaired
      show_settings_dialog_sets_num_rounds [OF app unpaired, of 5 "[''buchholz'', ''wins'']"]
    by simp
qed

end
